theory Spec2Isabelle
  imports Main
begin

section \<open>Values of the plugin\<close>

text \<open>
  Go errors. \<open>errors_New msg\<close> is \<^verbatim>\<open>errors.New(msg)\<close> (and stands for any error
  value of the runtime, given by its message); \<open>fmt_Errorf prefix err\<close> is
  \<^verbatim>\<open>fmt.Errorf(prefix + ": %w", err)\<close>, the wrapping the plugin uses everywhere.
\<close>

datatype error = errors_New string | fmt_Errorf string error

fun Error :: "error \<Rightarrow> string" where
  "Error (errors_New msg) = msg"
| "Error (fmt_Errorf prefix err) = prefix @ '': '' @ Error err"

text \<open>
  Pointers to \<^verbatim>\<open>sql.DB\<close> and \<^verbatim>\<open>application.App\<close> are opaque identities; a field
  that may hold \<^verbatim>\<open>nil\<close> is an \<open>option\<close>.
\<close>

type_synonym sql_DB = nat
type_synonym application_App = nat

text \<open>The struct \<^verbatim>\<open>Config\<close> of plugin.go, field by field.\<close>

record Config =
  DbName :: string
  InMemory :: bool
  MacDir :: string
  WindowsDir :: string
  LinuxDir :: string
  DeleteOnShutdown :: bool
  DeleteDir :: bool
  CacheShared :: bool
  MaxOpenConnections :: int
  MaxIdleConnections :: int
  DB :: "sql_DB option"
  savedPath :: string

text \<open>
  The struct \<^verbatim>\<open>Sqlite\<close>. The plugin owns its configuration through a pointer that
  \<^verbatim>\<open>NewPlugin\<close> stores; the model holds the configuration itself, so every write
  through \<^verbatim>\<open>p.config\<close> is an update of the \<open>config\<close> field.
\<close>

record Sqlite =
  config :: Config
  app :: "application_App option"

definition NewPlugin :: "Config \<Rightarrow> Sqlite" where
  "NewPlugin c = \<lparr>config = c, app = None\<rparr>"

section \<open>The world outside the plugin\<close>

text \<open>
  Every call that leaves the plugin is recorded, in order, as an event. The number of
  \<open>EvMkdirAll\<close> is the permission argument; \<open>EvOpen\<close> carries the driver name and
  the data source name; \<open>EvLoggerInfo\<close> carries the application whose logger is used,
  the message and the three logged values.
\<close>

datatype event =
    EvMkdirAll string nat
  | EvOpen string string
  | EvSetMaxIdleConns sql_DB int
  | EvSetMaxOpenConns sql_DB int
  | EvPing sql_DB
  | EvRemoveAll string
  | EvLoggerInfo application_App string string int int

text \<open>
  What the runtime answers: the platform name, the environment variables, the two lexical
  path functions of \<^verbatim>\<open>path/filepath\<close> (they differ between platforms), and the result
  of each fallible call (\<open>None\<close> is Go's \<^verbatim>\<open>nil\<close> error).
\<close>

record env =
  GOOS :: string
  os_Getenv :: "string \<Rightarrow> string"
  filepath_Join :: "string list \<Rightarrow> string"
  filepath_Dir :: "string \<Rightarrow> string"
  os_MkdirAll :: "string \<Rightarrow> error option"
  os_RemoveAll :: "string \<Rightarrow> error option"
  sql_Open :: "string \<Rightarrow> string \<Rightarrow> error + sql_DB"
  db_Ping :: "sql_DB \<Rightarrow> error option"
  application_Get :: "application_App option"

text \<open>
  A Go function either returns its \<^verbatim>\<open>error\<close> result or panics (a method call
  through a \<^verbatim>\<open>nil\<close> pointer).
\<close>

datatype outcome = Return "error option" | Panic

section \<open>Initialisation\<close>

text \<open>\<^verbatim>\<open>createMemDB\<close>, plugin.go lines 127 to 135.\<close>

definition createMemDB :: "env \<Rightarrow> Sqlite \<Rightarrow> event list \<Rightarrow> outcome \<times> Sqlite \<times> event list" where
  "createMemDB e sqls w =
     (let w1 = w @ [EvOpen ''sqlite3'' '':memory:''] in
      case sql_Open e ''sqlite3'' '':memory:'' of
        Inl err \<Rightarrow>
          (Return (Some (fmt_Errorf ''failed to create in-memory database'' err)), sqls, w1)
      | Inr db \<Rightarrow>
          (Return None, sqls\<lparr>config := (config sqls)\<lparr>DB := Some db\<rparr>\<rparr>, w1))"

text \<open>
  The \<^verbatim>\<open>switch runtime.GOOS\<close> of \<^verbatim>\<open>createFileDB\<close> (lines 139 to 161): the value of
  the local \<^verbatim>\<open>dbPath\<close> after the switch, or the error of the default branch.
\<close>

definition dbDir :: "env \<Rightarrow> Config \<Rightarrow> error + string" where
  "dbDir e c =
     (if GOOS e = ''windows'' then
        (if WindowsDir c \<noteq> [] then Inr (WindowsDir c)
         else Inr (filepath_Join e [os_Getenv e ''APPDATA'', WindowsDir c]))
      else if GOOS e = ''darwin'' then
        (if MacDir c \<noteq> [] then Inr (MacDir c)
         else Inr (filepath_Join e
                [os_Getenv e ''HOME'', ''Library'', ''Application Support'', DbName c,
                 DbName c @ ''.db'']))
      else if GOOS e = ''linux'' then
        (if LinuxDir c \<noteq> [] then Inr (LinuxDir c)
         else Inr (filepath_Join e [os_Getenv e ''HOME'', ''.config'', DbName c]))
      else Inl (errors_New ''operating system not supported, please use Windows/macOS/Linux''))"

text \<open>The local \<^verbatim>\<open>fileName\<close> of \<^verbatim>\<open>createFileDB\<close> (lines 162 to 166).\<close>

definition fileName :: "Config \<Rightarrow> string" where
  "fileName c =
     (let name = DbName c @ ''.db'' in
      if CacheShared c then name @ ''?cache=shared'' else name)"

text \<open>
  \<^verbatim>\<open>createFileDB\<close>, lines 137 to 202. The permission \<^verbatim>\<open>0755\<close> is octal, 493.
  The last statement but one logs through \<^verbatim>\<open>sqls.app.Logger\<close>, which panics when
  \<^verbatim>\<open>application.Get()\<close> gave \<^verbatim>\<open>nil\<close>.
\<close>

definition createFileDB :: "env \<Rightarrow> Sqlite \<Rightarrow> event list \<Rightarrow> outcome \<times> Sqlite \<times> event list" where
  "createFileDB e sqls w =
     (case dbDir e (config sqls) of
        Inl err \<Rightarrow> (Return (Some err), sqls, w)
      | Inr dir \<Rightarrow>
          (let fname = fileName (config sqls);
               w1 = w @ [EvMkdirAll dir 493] in
           case os_MkdirAll e dir of
             Some err \<Rightarrow> (Return (Some (fmt_Errorf ''failed to create directory'' err)), sqls, w1)
           | None \<Rightarrow>
               (let dbPath = filepath_Join e [dir, fname];
                    sqls1 = sqls\<lparr>config := (config sqls)\<lparr>savedPath := fname\<rparr>\<rparr>;
                    w2 = w1 @ [EvOpen ''sqlite3'' dbPath] in
                case sql_Open e ''sqlite3'' dbPath of
                  Inl err \<Rightarrow>
                    (Return (Some (fmt_Errorf ''failed to create database'' err)), sqls1, w2)
                | Inr db \<Rightarrow>
                    (let idle0 = MaxIdleConnections (config sqls1);
                         open0 = MaxOpenConnections (config sqls1);
                         idle = (if idle0 = 0 then 2 else idle0);
                         opn = (if open0 = 0 then 1 else open0);
                         w3 = w2 @ [EvSetMaxIdleConns db idle, EvSetMaxOpenConns db opn, EvPing db] in
                     case db_Ping e db of
                       Some err \<Rightarrow>
                         (Return (Some (fmt_Errorf ''failed to ping database'' err)), sqls1, w3)
                     | None \<Rightarrow>
                         (case app sqls1 of
                            None \<Rightarrow> (Panic, sqls1, w3)
                          | Some a \<Rightarrow>
                              (Return None,
                               sqls1\<lparr>config := (config sqls1)\<lparr>DB := Some db\<rparr>\<rparr>,
                               w3 @ [EvLoggerInfo a ''Sqlite Initialized'' dbPath idle opn]))))))"

text \<open>\<^verbatim>\<open>Init\<close>, lines 83 to 92.\<close>

definition Init :: "env \<Rightarrow> Sqlite \<Rightarrow> event list \<Rightarrow> outcome \<times> Sqlite \<times> event list" where
  "Init e p w =
     (let p1 = p\<lparr>app := application_Get e\<rparr> in
      if InMemory (config p1) then createMemDB e p1 w
      else if DbName (config p1) = [] then
        (Return (Some (errors_New
           ''Sqlite requires a DbName to be set or configured for In Memory database'')), p1, w)
      else createFileDB e p1 w)"

section \<open>Shutdown and the handle accessors\<close>

text \<open>\<^verbatim>\<open>Shutdown\<close>, lines 55 to 72. It never writes to the plugin.\<close>

definition Shutdown :: "env \<Rightarrow> Sqlite \<Rightarrow> event list \<Rightarrow> error option \<times> event list" where
  "Shutdown e p w =
     (if DeleteOnShutdown (config p) then
        (if InMemory (config p) then (None, w)
         else
           (let target = (if DeleteDir (config p) then filepath_Dir e (savedPath (config p))
                          else savedPath (config p));
                w1 = w @ [EvRemoveAll target] in
            case os_RemoveAll e target of
              Some err \<Rightarrow> (Some (fmt_Errorf ''failed to delete database'' err), w1)
            | None \<Rightarrow> (None, w1)))
      else (None, w))"

text \<open>\<^verbatim>\<open>GetDB\<close>, lines 115 to 117, and \<^verbatim>\<open>SetDB\<close>, lines 119 to 125.\<close>

definition GetDB :: "Sqlite \<Rightarrow> sql_DB option \<times> error option" where
  "GetDB sqls = (DB (config sqls), None)"

definition SetDB :: "Sqlite \<Rightarrow> sql_DB option \<Rightarrow> error option \<times> Sqlite" where
  "SetDB sqls newDB =
     (case newDB of
        Some db \<Rightarrow> (None, sqls\<lparr>config := (config sqls)\<lparr>DB := Some db\<rparr>\<rparr>)
      | None \<Rightarrow> (Some (errors_New ''Attempted to set DB but provided pointer was nil''), sqls))"

section \<open>The lexical path functions\<close>

text \<open>
  \<^verbatim>\<open>filepath.Join\<close> and \<^verbatim>\<open>filepath.Dir\<close> belong to Go's library, not to the
  plugin, so the plugin's functions take them from the environment. The definitions
  below follow the library's documented rules for a given separator character, for the
  concrete environments of the examples: \<^verbatim>\<open>Clean\<close> collapses repeated separators,
  drops \<^verbatim>\<open>.\<close> elements, cancels an inner \<^verbatim>\<open>..\<close> against the element before
  it, drops \<^verbatim>\<open>..\<close> at the start of a rooted path and gives \<^verbatim>\<open>.\<close> for an empty
  result; \<^verbatim>\<open>Join\<close> skips leading empty elements, joins the rest with the separator
  and cleans; \<^verbatim>\<open>Dir\<close> cleans the path up to its last separator. Drive letters and
  UNC prefixes of Windows are not interpreted.
\<close>

fun split_sep :: "char \<Rightarrow> string \<Rightarrow> string list" where
  "split_sep sep [] = [[]]"
| "split_sep sep (c # cs) =
     (if c = sep then [] # split_sep sep cs
      else (case split_sep sep cs of [] \<Rightarrow> [[c]] | x # xs \<Rightarrow> (c # x) # xs))"

fun join_sep :: "char \<Rightarrow> string list \<Rightarrow> string" where
  "join_sep sep [] = []"
| "join_sep sep [x] = x"
| "join_sep sep (x # y # ys) = x @ sep # join_sep sep (y # ys)"

definition clean_step :: "bool \<Rightarrow> string list \<Rightarrow> string \<Rightarrow> string list" where
  "clean_step rooted st c =
     (if c = ''..'' then
        (case st of
           [] \<Rightarrow> (if rooted then [] else [c])
         | t # ts \<Rightarrow> (if t = ''..'' then c # st else ts))
      else c # st)"

definition lexical_Clean :: "char \<Rightarrow> string \<Rightarrow> string" where
  "lexical_Clean sep path =
     (let rooted = (case path of [] \<Rightarrow> False | c # _ \<Rightarrow> c = sep);
          elems = filter (\<lambda>c. c \<noteq> [] \<and> c \<noteq> ''.'') (split_sep sep path);
          out = join_sep sep (rev (foldl (clean_step rooted) [] elems))
      in if rooted then sep # out else if out = [] then ''.'' else out)"

definition lexical_Join :: "char \<Rightarrow> string list \<Rightarrow> string" where
  "lexical_Join sep elem =
     (case dropWhile (\<lambda>x. x = []) elem of
        [] \<Rightarrow> []
      | x # xs \<Rightarrow> lexical_Clean sep (join_sep sep (x # xs)))"

definition lexical_Dir :: "char \<Rightarrow> string \<Rightarrow> string" where
  "lexical_Dir sep path = lexical_Clean sep (rev (dropWhile (\<lambda>c. c \<noteq> sep) (rev path)))"

section \<open>Concrete environments and configurations\<close>

text \<open>
  A Linux host whose user has the home directory \<^verbatim>\<open>/home/u\<close>. Every call succeeds,
  except that \<^verbatim>\<open>os.RemoveAll\<close> refuses a path that ends in a dot, as Go's does.
\<close>

definition linux_env :: env where
  "linux_env =
     \<lparr>GOOS = ''linux'',
      os_Getenv = (\<lambda>k. if k = ''HOME'' then ''/home/u'' else []),
      filepath_Join = lexical_Join CHR ''/'',
      filepath_Dir = lexical_Dir CHR ''/'',
      os_MkdirAll = (\<lambda>_. None),
      os_RemoveAll = (\<lambda>p. if p = ''.'' then Some (errors_New ''RemoveAll .: invalid argument'')
                          else None),
      sql_Open = (\<lambda>_ _. Inr 1),
      db_Ping = (\<lambda>_. None),
      application_Get = Some 7\<rparr>"

text \<open>The same host with a database file that cannot be reached: the ping fails.\<close>

definition linux_ping_fail_env :: env where
  "linux_ping_fail_env =
     linux_env\<lparr>db_Ping := (\<lambda>_. Some (errors_New ''unable to open database file''))\<rparr>"

text \<open>
  A Windows host; \<^verbatim>\<open>APPDATA\<close> is \<^verbatim>\<open>C:\Users\u\AppData\Roaming\<close> (the backslash
  is the character 0x5C).
\<close>

definition backslash :: char where
  "backslash = CHR 0x5C"

definition windows_env :: env where
  "windows_env =
     \<lparr>GOOS = ''windows'',
      os_Getenv = (\<lambda>k. if k = ''APPDATA''
                        then ''C:'' @ backslash # ''Users'' @ backslash # ''u'' @ backslash #
                             ''AppData'' @ backslash # ''Roaming''
                        else []),
      filepath_Join = lexical_Join backslash,
      filepath_Dir = lexical_Dir backslash,
      os_MkdirAll = (\<lambda>_. None),
      os_RemoveAll = (\<lambda>_. None),
      sql_Open = (\<lambda>_ _. Inr 1),
      db_Ping = (\<lambda>_. None),
      application_Get = Some 7\<rparr>"

text \<open>
  A host of a platform the plugin does not support, on which every fallible call would
  fail.
\<close>

definition plan9_env :: env where
  "plan9_env =
     \<lparr>GOOS = ''plan9'',
      os_Getenv = (\<lambda>_. []),
      filepath_Join = lexical_Join CHR ''/'',
      filepath_Dir = lexical_Dir CHR ''/'',
      os_MkdirAll = (\<lambda>_. Some (errors_New ''permission denied'')),
      os_RemoveAll = (\<lambda>_. Some (errors_New ''permission denied'')),
      sql_Open = (\<lambda>_ _. Inr 1),
      db_Ping = (\<lambda>_. Some (errors_New ''unable to open database file'')),
      application_Get = None\<rparr>"

text \<open>
  The configuration of the spec's scenario, \<^verbatim>\<open>name="app"\<close> with everything else at
  its zero value, and the variants the examples use.
\<close>

definition app_config :: Config where
  "app_config =
     \<lparr>DbName = ''app'', InMemory = False, MacDir = [], WindowsDir = [], LinuxDir = [],
      DeleteOnShutdown = False, DeleteDir = False, CacheShared = False,
      MaxOpenConnections = 0, MaxIdleConnections = 0, DB = None, savedPath = []\<rparr>"

definition delete_file_config :: Config where
  "delete_file_config = app_config\<lparr>DeleteOnShutdown := True\<rparr>"

definition delete_dir_config :: Config where
  "delete_dir_config = app_config\<lparr>DeleteOnShutdown := True, DeleteDir := True\<rparr>"

definition shared_config :: Config where
  "shared_config = app_config\<lparr>CacheShared := True, MaxOpenConnections := 4\<rparr>"

definition memory_config :: Config where
  "memory_config =
     app_config\<lparr>InMemory := True, DbName := [], LinuxDir := ''/var/db'', MacDir := ''/var/db''\<rparr>"

definition nameless_config :: Config where
  "nameless_config = app_config\<lparr>DbName := []\<rparr>"

section \<open>The handle accessor\<close>

text \<open>
  Claim C10. \<^verbatim>\<open>GetDB\<close> never reports an error: in every state of the plugin,
  also before \<^verbatim>\<open>Init\<close> when the stored handle is \<^verbatim>\<open>nil\<close>, it returns the stored
  handle together with a \<^verbatim>\<open>nil\<close> error.
\<close>

theorem GetDB_never_fails:
  "GetDB sqls = (DB (config sqls), None) \<and> snd (GetDB (NewPlugin c)) = None
   \<and> fst (GetDB (NewPlugin (c\<lparr>DB := None\<rparr>))) = None"
  by (simp add: GetDB_def NewPlugin_def)

section \<open>The paths through the file-backed initialisation\<close>

text \<open>
  \<^verbatim>\<open>createFileDB\<close> leaves at one of six places: the unsupported platform, the failed
  directory creation, the failed open, the failed ping, the logger of a missing
  application, and the end. One lemma for each gives the result in terms of what the
  environment answered.
\<close>

lemma createFileDB_unsupported:
  "dbDir e (config s) = Inl err \<Longrightarrow> createFileDB e s w = (Return (Some err), s, w)"
  by (simp add: createFileDB_def)

lemma createFileDB_mkdir_failed:
  "dbDir e (config s) = Inr dir \<Longrightarrow> os_MkdirAll e dir = Some err \<Longrightarrow>
   createFileDB e s w =
     (Return (Some (fmt_Errorf ''failed to create directory'' err)), s, w @ [EvMkdirAll dir 493])"
  by (simp add: createFileDB_def)

lemma createFileDB_open_failed:
  "dbDir e (config s) = Inr dir \<Longrightarrow> os_MkdirAll e dir = None \<Longrightarrow>
   sql_Open e ''sqlite3'' (filepath_Join e [dir, fileName (config s)]) = Inl err \<Longrightarrow>
   createFileDB e s w =
     (Return (Some (fmt_Errorf ''failed to create database'' err)),
      s\<lparr>config := (config s)\<lparr>savedPath := fileName (config s)\<rparr>\<rparr>,
      w @ [EvMkdirAll dir 493, EvOpen ''sqlite3'' (filepath_Join e [dir, fileName (config s)])])"
  by (simp add: createFileDB_def Let_def)

lemma createFileDB_ping_failed:
  "dbDir e (config s) = Inr dir \<Longrightarrow> os_MkdirAll e dir = None \<Longrightarrow>
   sql_Open e ''sqlite3'' (filepath_Join e [dir, fileName (config s)]) = Inr db \<Longrightarrow>
   db_Ping e db = Some err \<Longrightarrow>
   createFileDB e s w =
     (Return (Some (fmt_Errorf ''failed to ping database'' err)),
      s\<lparr>config := (config s)\<lparr>savedPath := fileName (config s)\<rparr>\<rparr>,
      w @ [EvMkdirAll dir 493, EvOpen ''sqlite3'' (filepath_Join e [dir, fileName (config s)]),
           EvSetMaxIdleConns db
             (if MaxIdleConnections (config s) = 0 then 2 else MaxIdleConnections (config s)),
           EvSetMaxOpenConns db
             (if MaxOpenConnections (config s) = 0 then 1 else MaxOpenConnections (config s)),
           EvPing db])"
  by (simp add: createFileDB_def Let_def)

lemma createFileDB_no_app:
  "dbDir e (config s) = Inr dir \<Longrightarrow> os_MkdirAll e dir = None \<Longrightarrow>
   sql_Open e ''sqlite3'' (filepath_Join e [dir, fileName (config s)]) = Inr db \<Longrightarrow>
   db_Ping e db = None \<Longrightarrow> app s = None \<Longrightarrow>
   fst (createFileDB e s w) = Panic"
  by (simp add: createFileDB_def Let_def)

lemma createFileDB_ok:
  "dbDir e (config s) = Inr dir \<Longrightarrow> os_MkdirAll e dir = None \<Longrightarrow>
   sql_Open e ''sqlite3'' (filepath_Join e [dir, fileName (config s)]) = Inr db \<Longrightarrow>
   db_Ping e db = None \<Longrightarrow> app s = Some a \<Longrightarrow>
   fst (createFileDB e s w) = Return None \<and>
   fst (snd (createFileDB e s w)) =
     s\<lparr>config := (config s)\<lparr>savedPath := fileName (config s), DB := Some db\<rparr>\<rparr>"
  by (simp add: createFileDB_def Let_def)

lemma createFileDB_error_state:
  assumes run: "createFileDB e s w = (Return (Some err), s', w')"
  shows "DB (config s') = DB (config s) \<and>
     (if (\<exists>x. err = fmt_Errorf ''failed to create database'' x) \<or>
         (\<exists>x. err = fmt_Errorf ''failed to ping database'' x)
      then config s' = (config s)\<lparr>savedPath := fileName (config s)\<rparr>
      else config s' = config s)"
proof (cases "dbDir e (config s)")
  case (Inl x)
  then have "x = errors_New ''operating system not supported, please use Windows/macOS/Linux''"
    by (simp add: dbDir_def split: if_splits)
  with Inl run show ?thesis by (auto simp add: createFileDB_unsupported)
next
  case (Inr dir)
  note dir = this
  show ?thesis
  proof (cases "os_MkdirAll e dir")
    case (Some x)
    from run show ?thesis
      unfolding createFileDB_mkdir_failed [OF dir Some] by auto
  next
    case None
    note mk = this
    show ?thesis
    proof (cases "sql_Open e ''sqlite3'' (filepath_Join e [dir, fileName (config s)])")
      case (Inl x)
      from run show ?thesis
        unfolding createFileDB_open_failed [OF dir mk Inl] by auto
    next
      case (Inr db)
      note op = this
      show ?thesis
      proof (cases "db_Ping e db")
        case (Some x)
        from run show ?thesis
          unfolding createFileDB_ping_failed [OF dir mk op Some] by auto
      next
        case None
        note pg = this
        show ?thesis
        proof (cases "app s")
          case None
          from createFileDB_no_app [OF dir mk op pg None, of w] run show ?thesis by simp
        next
          case (Some a)
          from createFileDB_ok [OF dir mk op pg Some, of w] run show ?thesis by simp
        qed
      qed
    qed
  qed
qed

text \<open>
  The events of a run, counted from the start of the call: the whole list, its first
  one, two and five entries, and where a ping or an open can stand in it.
\<close>

lemma Init_file_backed:
  "\<not> InMemory (config p) \<Longrightarrow> DbName (config p) \<noteq> [] \<Longrightarrow>
   Init e p w = createFileDB e (p\<lparr>app := application_Get e\<rparr>) w"
  by (simp add: Init_def)

lemma createFileDB_starts_with_mkdir:
  "dbDir e (config s) = Inr dir \<Longrightarrow>
   take 1 (drop (length w) (snd (snd (createFileDB e s w)))) = [EvMkdirAll dir 493]"
  by (simp add: createFileDB_def Let_def split: option.split sum.split)

lemma createFileDB_then_opens:
  "dbDir e (config s) = Inr dir \<Longrightarrow> os_MkdirAll e dir = None \<Longrightarrow>
   take 2 (drop (length w) (snd (snd (createFileDB e s w)))) =
     [EvMkdirAll dir 493, EvOpen ''sqlite3'' (filepath_Join e [dir, fileName (config s)])]"
  by (simp add: createFileDB_def Let_def split: option.split sum.split)

lemma createFileDB_then_bounds_and_ping:
  "dbDir e (config s) = Inr dir \<Longrightarrow> os_MkdirAll e dir = None \<Longrightarrow>
   sql_Open e ''sqlite3'' (filepath_Join e [dir, fileName (config s)]) = Inr db \<Longrightarrow>
   take 5 (drop (length w) (snd (snd (createFileDB e s w)))) =
     [EvMkdirAll dir 493, EvOpen ''sqlite3'' (filepath_Join e [dir, fileName (config s)]),
      EvSetMaxIdleConns db
        (if MaxIdleConnections (config s) = 0 then 2 else MaxIdleConnections (config s)),
      EvSetMaxOpenConns db
        (if MaxOpenConnections (config s) = 0 then 1 else MaxOpenConnections (config s)),
      EvPing db]"
  by (simp add: createFileDB_def Let_def split: option.split)


lemma createFileDB_events:
  "snd (snd (createFileDB e s w)) =
     w @ (case dbDir e (config s) of
            Inl _ \<Rightarrow> []
          | Inr dir \<Rightarrow>
              EvMkdirAll dir 493 #
              (case os_MkdirAll e dir of
                 Some _ \<Rightarrow> []
               | None \<Rightarrow>
                   EvOpen ''sqlite3'' (filepath_Join e [dir, fileName (config s)]) #
                   (case sql_Open e ''sqlite3'' (filepath_Join e [dir, fileName (config s)]) of
                      Inl _ \<Rightarrow> []
                    | Inr db \<Rightarrow>
                        [EvSetMaxIdleConns db
                           (if MaxIdleConnections (config s) = 0 then 2
                            else MaxIdleConnections (config s)),
                         EvSetMaxOpenConns db
                           (if MaxOpenConnections (config s) = 0 then 1
                            else MaxOpenConnections (config s)),
                         EvPing db] @
                        (case db_Ping e db of
                           Some _ \<Rightarrow> []
                         | None \<Rightarrow>
                             (case app s of
                                None \<Rightarrow> []
                              | Some a \<Rightarrow>
                                  [EvLoggerInfo a ''Sqlite Initialized''
                                     (filepath_Join e [dir, fileName (config s)])
                                     (if MaxIdleConnections (config s) = 0 then 2
                                      else MaxIdleConnections (config s))
                                     (if MaxOpenConnections (config s) = 0 then 1
                                      else MaxOpenConnections (config s))])))))"
proof (cases "dbDir e (config s)")
  case (Inl err)
  then show ?thesis by (simp add: createFileDB_def)
next
  case (Inr dir)
  note dir = this
  show ?thesis
  proof (cases "os_MkdirAll e dir")
    case (Some err)
    with dir show ?thesis by (simp add: createFileDB_def)
  next
    case None
    note mk = this
    show ?thesis
    proof (cases "sql_Open e ''sqlite3'' (filepath_Join e [dir, fileName (config s)])")
      case (Inl err)
      with dir mk show ?thesis by (simp add: createFileDB_def Let_def)
    next
      case (Inr db)
      note op = this
      show ?thesis
      proof (cases "db_Ping e db")
        case (Some err)
        with dir mk op show ?thesis by (simp add: createFileDB_def Let_def)
      next
        case None
        with dir mk op show ?thesis
          by (cases "app s") (simp_all add: createFileDB_def Let_def)
      qed
    qed
  qed
qed

lemma createFileDB_ping_is_fifth:
  assumes "EvPing db \<in> set (drop (length w) (snd (snd (createFileDB e s w))))"
  shows "\<exists>dir dsn. take 5 (drop (length w) (snd (snd (createFileDB e s w)))) =
     [EvMkdirAll dir 493, EvOpen ''sqlite3'' dsn,
      EvSetMaxIdleConns db
        (if MaxIdleConnections (config s) = 0 then 2 else MaxIdleConnections (config s)),
      EvSetMaxOpenConns db
        (if MaxOpenConnections (config s) = 0 then 1 else MaxOpenConnections (config s)),
      EvPing db]"
  using assms unfolding createFileDB_events
  by (auto split: sum.splits option.splits)

lemma createFileDB_single_open:
  assumes "EvOpen drv dsn \<in> set (drop (length w) (snd (snd (createFileDB e s w))))"
  shows "\<exists>dir. dbDir e (config s) = Inr dir \<and> drv = ''sqlite3'' \<and>
     dsn = filepath_Join e [dir, fileName (config s)]"
  using assms unfolding createFileDB_events
  by (cases "dbDir e (config s)") (auto split: sum.splits option.splits)

section \<open>What a failed initialisation leaves behind\<close>

text \<open>
  Claim C3, as amended. When \<^verbatim>\<open>Init\<close> returns an error, the stored connection handle
  is the one from before the call. The rest of the configuration is untouched as well
  when the name is missing, the platform is unsupported, the directory cannot be created
  or the in-memory open fails. When the open of the database file or the ping fails,
  \<^verbatim>\<open>savedPath\<close> has already been written (line 176 runs before \<^verbatim>\<open>sql.Open\<close>) and
  may differ from its value before the call; every other field is as it was.
\<close>

theorem Init_error_state:
  assumes run: "Init e p w = (Return (Some err), p', w')"
  shows "DB (config p') = DB (config p) \<and>
     (if (\<exists>x. err = fmt_Errorf ''failed to create database'' x) \<or>
         (\<exists>x. err = fmt_Errorf ''failed to ping database'' x)
      then (config p')\<lparr>savedPath := savedPath (config p)\<rparr> = config p
      else config p' = config p)"
proof (cases "InMemory (config p)")
  case True
  with run show ?thesis
    by (auto simp add: Init_def createMemDB_def Let_def split: sum.splits)
next
  case False
  show ?thesis
  proof (cases "DbName (config p) = []")
    case True
    with False run show ?thesis by (auto simp add: Init_def)
  next
    case named: False
    from False named run
    have "createFileDB e (p\<lparr>app := application_Get e\<rparr>) w = (Return (Some err), p', w')"
      by (simp add: Init_def)
    from createFileDB_error_state [OF this] show ?thesis
      by (auto split: if_splits)
  qed
qed

text \<open>
  The claim as first stated (handle and recorded path both as before the call) fails on
  a Linux host where the ping fails: \<^verbatim>\<open>Init\<close> returns the ping error, and the recorded
  path, empty before the call, is \<^verbatim>\<open>app.db\<close> after it.
\<close>

theorem Init_error_keeps_path_counterexample:
  "fst (Init linux_ping_fail_env (NewPlugin app_config) []) =
     Return (Some (fmt_Errorf ''failed to ping database''
                     (errors_New ''unable to open database file'')))
   \<and> savedPath (config (NewPlugin app_config)) = []
   \<and> savedPath (config (fst (snd (Init linux_ping_fail_env (NewPlugin app_config) [])))) =
       ''app.db''"
  by (simp add: Init_def createFileDB_def dbDir_def fileName_def NewPlugin_def app_config_def
      linux_ping_fail_env_def linux_env_def Let_def)

text \<open>The amended statement at the same input.\<close>

theorem Init_error_state_witness:
  "Init linux_ping_fail_env (NewPlugin app_config) [] =
     (Return (Some (fmt_Errorf ''failed to ping database''
                     (errors_New ''unable to open database file''))),
      fst (snd (Init linux_ping_fail_env (NewPlugin app_config) [])),
      snd (snd (Init linux_ping_fail_env (NewPlugin app_config) [])))
   \<and> DB (config (fst (snd (Init linux_ping_fail_env (NewPlugin app_config) [])))) = None
   \<and> (config (fst (snd (Init linux_ping_fail_env (NewPlugin app_config) []))))
         \<lparr>savedPath := []\<rparr> = app_config"
proof -
  have run: "Init linux_ping_fail_env (NewPlugin app_config) [] =
     (Return (Some (fmt_Errorf ''failed to ping database''
                     (errors_New ''unable to open database file''))),
      fst (snd (Init linux_ping_fail_env (NewPlugin app_config) [])),
      snd (snd (Init linux_ping_fail_env (NewPlugin app_config) [])))"
    by (simp add: Init_def createFileDB_def dbDir_def fileName_def NewPlugin_def app_config_def
        linux_ping_fail_env_def linux_env_def Let_def)
  from Init_error_state [OF run] run show ?thesis
    by (simp add: NewPlugin_def fileName_def app_config_def)
qed

section \<open>Validation of the name\<close>

text \<open>
  Claim C4, as amended. With an empty \<^verbatim>\<open>DbName\<close> and \<^verbatim>\<open>InMemory\<close> false,
  \<^verbatim>\<open>Init\<close> returns the error that asks for a name (the spec's ConfigurationError),
  records no event (no directory is created, no connection is opened or pinged) and
  leaves the configuration, with its handle and recorded path, as it was. The manager
  itself is not left as it was: line 84 stores the host application in \<^verbatim>\<open>p.app\<close>
  before any check, and that is the one field the call writes.
\<close>

theorem Init_without_name:
  assumes "DbName (config p) = []" and "\<not> InMemory (config p)"
  shows "Init e p w =
     (Return (Some (errors_New
        ''Sqlite requires a DbName to be set or configured for In Memory database'')),
      p\<lparr>app := application_Get e\<rparr>, w)
     \<and> config (fst (snd (Init e p w))) = config p
     \<and> snd (snd (Init e p w)) = w"
  using assms by (simp add: Init_def)

text \<open>
  The claim as first stated (the manager's state unchanged) fails on the Linux host for
  a plugin fresh from \<^verbatim>\<open>NewPlugin\<close> with no name: \<^verbatim>\<open>Init\<close> returns the error, and
  the application reference, \<^verbatim>\<open>nil\<close> before the call, holds the host application
  after it, so the manager after the call is not the manager before it.
\<close>

theorem Init_without_name_changes_app_counterexample:
  "DbName (config (NewPlugin nameless_config)) = []
   \<and> InMemory (config (NewPlugin nameless_config)) = False
   \<and> fst (Init linux_env (NewPlugin nameless_config) []) =
       Return (Some (errors_New
         ''Sqlite requires a DbName to be set or configured for In Memory database''))
   \<and> app (NewPlugin nameless_config) = None
   \<and> app (fst (snd (Init linux_env (NewPlugin nameless_config) []))) = Some 7
   \<and> fst (snd (Init linux_env (NewPlugin nameless_config) [])) \<noteq> NewPlugin nameless_config"
  by (simp add: Init_def NewPlugin_def nameless_config_def app_config_def linux_env_def)

text \<open>
  The amended statement at the same input: the error is returned, no event is recorded,
  the configuration is the one given, and the application reference is the only change.
\<close>

theorem Init_without_name_witness:
  "DbName (config (NewPlugin nameless_config)) = []
   \<and> \<not> InMemory (config (NewPlugin nameless_config))
   \<and> Init linux_env (NewPlugin nameless_config) [] =
       (Return (Some (errors_New
          ''Sqlite requires a DbName to be set or configured for In Memory database'')),
        \<lparr>config = nameless_config, app = Some 7\<rparr>, [])
   \<and> config (fst (snd (Init linux_env (NewPlugin nameless_config) []))) = nameless_config
   \<and> snd (snd (Init linux_env (NewPlugin nameless_config) [])) = []"
proof -
  have h1: "DbName (config (NewPlugin nameless_config)) = []"
    by (simp add: NewPlugin_def nameless_config_def app_config_def)
  have h2: "\<not> InMemory (config (NewPlugin nameless_config))"
    by (simp add: NewPlugin_def nameless_config_def app_config_def)
  have get: "application_Get linux_env = Some 7" by (simp add: linux_env_def)
  from Init_without_name [OF h1 h2, of linux_env "[]"] h1 h2 get show ?thesis
    by (simp add: NewPlugin_def)
qed

section \<open>The in-memory database\<close>

text \<open>
  Claim C5. With \<^verbatim>\<open>InMemory\<close> true, \<^verbatim>\<open>Init\<close> does one thing: it opens
  \<^verbatim>\<open>:memory:\<close> with the driver \<^verbatim>\<open>sqlite3\<close>. No directory is created and nothing
  else is called; the only error it can return wraps the error of that open, and it
  returns it exactly when the open fails. The platform, the environment variables, the
  path functions, the name, the three override directories and the recorded path play no
  part: changing any of them changes neither the result, nor the events, nor the handle
  that is stored.
\<close>

theorem Init_in_memory:
  assumes "InMemory (config p)"
  shows "Init e p w =
     (case sql_Open e ''sqlite3'' '':memory:'' of
        Inl err \<Rightarrow>
          (Return (Some (fmt_Errorf ''failed to create in-memory database'' err)),
           p\<lparr>app := application_Get e\<rparr>,
           w @ [EvOpen ''sqlite3'' '':memory:''])
      | Inr db \<Rightarrow>
          (Return None,
           p\<lparr>app := application_Get e, config := (config p)\<lparr>DB := Some db\<rparr>\<rparr>,
           w @ [EvOpen ''sqlite3'' '':memory:'']))
     \<and> fst (Init (e\<lparr>GOOS := g, os_Getenv := ge, filepath_Join := fj, filepath_Dir := fd,
                     os_MkdirAll := mk, os_RemoveAll := rm, db_Ping := pg\<rparr>)
               (p\<lparr>config := (config p)\<lparr>DbName := n, MacDir := md, WindowsDir := wd,
                                         LinuxDir := ld, savedPath := sp\<rparr>\<rparr>) w)
        = fst (Init e p w)
     \<and> snd (snd (Init (e\<lparr>GOOS := g, os_Getenv := ge, filepath_Join := fj, filepath_Dir := fd,
                     os_MkdirAll := mk, os_RemoveAll := rm, db_Ping := pg\<rparr>)
               (p\<lparr>config := (config p)\<lparr>DbName := n, MacDir := md, WindowsDir := wd,
                                         LinuxDir := ld, savedPath := sp\<rparr>\<rparr>) w))
        = snd (snd (Init e p w))
     \<and> DB (config (fst (snd (Init (e\<lparr>GOOS := g, os_Getenv := ge, filepath_Join := fj,
                     filepath_Dir := fd, os_MkdirAll := mk, os_RemoveAll := rm, db_Ping := pg\<rparr>)
               (p\<lparr>config := (config p)\<lparr>DbName := n, MacDir := md, WindowsDir := wd,
                                         LinuxDir := ld, savedPath := sp\<rparr>\<rparr>) w))))
        = DB (config (fst (snd (Init e p w))))"
  using assms
  by (cases "sql_Open e ''sqlite3'' '':memory:''") (simp_all add: Init_def createMemDB_def Let_def)

text \<open>
  An instance: an in-memory configuration with no name and override directories set, on
  an unsupported platform where directory creation would fail.
\<close>

theorem Init_in_memory_witness:
  "InMemory (config (NewPlugin memory_config))
   \<and> Init plan9_env (NewPlugin memory_config) [] =
       (Return None, \<lparr>config = memory_config\<lparr>DB := Some 1\<rparr>, app = None\<rparr>,
        [EvOpen ''sqlite3'' '':memory:''])"
proof -
  have h: "InMemory (config (NewPlugin memory_config))"
    by (simp add: NewPlugin_def memory_config_def)
  from Init_in_memory [OF h, of plan9_env "[]"] h show ?thesis
    by (simp add: NewPlugin_def plan9_env_def)
qed

section \<open>The default location on Linux\<close>

text \<open>
  Claim C6. On Linux, with no override directory and a non-empty name, the file-backed
  \<^verbatim>\<open>Init\<close> resolves the directory to the join of \<^verbatim>\<open>$HOME\<close>, \<^verbatim>\<open>.config\<close> and
  the name, creates it first, and then opens the database at that directory joined with
  the file name \<^verbatim>\<open>{name}.db\<close>. The data source name carries the shared-cache
  modifier of claim C9 after the file name when \<^verbatim>\<open>CacheShared\<close> is set.
\<close>

theorem linux_default_location:
  assumes "GOOS e = ''linux''" and "LinuxDir (config p) = []"
    and "DbName (config p) \<noteq> []" and "\<not> InMemory (config p)"
  shows "dbDir e (config p) =
       Inr (filepath_Join e [os_Getenv e ''HOME'', ''.config'', DbName (config p)])
     \<and> take 1 (drop (length w) (snd (snd (Init e p w)))) =
       [EvMkdirAll (filepath_Join e [os_Getenv e ''HOME'', ''.config'', DbName (config p)]) 493]
     \<and> (os_MkdirAll e (filepath_Join e [os_Getenv e ''HOME'', ''.config'', DbName (config p)])
          = None \<longrightarrow>
        take 2 (drop (length w) (snd (snd (Init e p w)))) =
          [EvMkdirAll (filepath_Join e [os_Getenv e ''HOME'', ''.config'', DbName (config p)]) 493,
           EvOpen ''sqlite3''
             (filepath_Join e
                [filepath_Join e [os_Getenv e ''HOME'', ''.config'', DbName (config p)],
                 DbName (config p) @ ''.db'' @
                 (if CacheShared (config p) then ''?cache=shared'' else [])])])"
proof -
  let ?dir = "filepath_Join e [os_Getenv e ''HOME'', ''.config'', DbName (config p)]"
  let ?p = "p\<lparr>app := application_Get e\<rparr>"
  from assms have dir: "dbDir e (config ?p) = Inr ?dir"
    by (simp add: dbDir_def)
  from assms have init: "Init e p w = createFileDB e ?p w"
    by (simp add: Init_file_backed)
  have fname: "fileName (config ?p) =
      DbName (config p) @ ''.db'' @ (if CacheShared (config p) then ''?cache=shared'' else [])"
    by (simp add: fileName_def)
  from dir have "dbDir e (config p) = Inr ?dir" by simp
  moreover from createFileDB_starts_with_mkdir [OF dir, of w] init
  have "take 1 (drop (length w) (snd (snd (Init e p w)))) = [EvMkdirAll ?dir 493]" by simp
  moreover have "os_MkdirAll e ?dir = None \<longrightarrow>
        take 2 (drop (length w) (snd (snd (Init e p w)))) =
          [EvMkdirAll ?dir 493,
           EvOpen ''sqlite3''
             (filepath_Join e [?dir, DbName (config p) @ ''.db'' @
                 (if CacheShared (config p) then ''?cache=shared'' else [])])]"
  proof
    assume mk: "os_MkdirAll e ?dir = None"
    from createFileDB_then_opens [OF dir mk, of w] init fname
    show "take 2 (drop (length w) (snd (snd (Init e p w)))) =
          [EvMkdirAll ?dir 493,
           EvOpen ''sqlite3''
             (filepath_Join e [?dir, DbName (config p) @ ''.db'' @
                 (if CacheShared (config p) then ''?cache=shared'' else [])])]"
      by simp
  qed
  ultimately show ?thesis by blast
qed

text \<open>
  The scenario of the spec: the name \<^verbatim>\<open>app\<close> and the home directory \<^verbatim>\<open>/home/u\<close>
  give the directory \<^verbatim>\<open>/home/u/.config/app\<close> and the file \<^verbatim>\<open>app.db\<close> in it.
\<close>

theorem linux_default_location_witness:
  "GOOS linux_env = ''linux'' \<and> LinuxDir (config (NewPlugin app_config)) = []
   \<and> DbName (config (NewPlugin app_config)) \<noteq> []
   \<and> \<not> InMemory (config (NewPlugin app_config))
   \<and> os_Getenv linux_env ''HOME'' = ''/home/u''
   \<and> dbDir linux_env (config (NewPlugin app_config)) = Inr ''/home/u/.config/app''
   \<and> take 2 (snd (snd (Init linux_env (NewPlugin app_config) []))) =
       [EvMkdirAll ''/home/u/.config/app'' 493,
        EvOpen ''sqlite3'' ''/home/u/.config/app/app.db'']"
proof -
  have h1: "GOOS linux_env = ''linux''" by (simp add: linux_env_def)
  have h2: "LinuxDir (config (NewPlugin app_config)) = []"
    by (simp add: NewPlugin_def app_config_def)
  have h3: "DbName (config (NewPlugin app_config)) \<noteq> []"
    by (simp add: NewPlugin_def app_config_def)
  have h4: "\<not> InMemory (config (NewPlugin app_config))"
    by (simp add: NewPlugin_def app_config_def)
  have home: "os_Getenv linux_env ''HOME'' = ''/home/u''" by (simp add: linux_env_def)
  have name: "DbName (config (NewPlugin app_config)) = ''app''"
    "CacheShared (config (NewPlugin app_config)) = False"
    by (simp_all add: NewPlugin_def app_config_def)
  have j1: "filepath_Join linux_env [''/home/u'', ''.config'', ''app''] = ''/home/u/.config/app''"
    by (simp add: linux_env_def lexical_Join_def lexical_Clean_def clean_step_def)
  have j2: "filepath_Join linux_env [''/home/u/.config/app'', ''app.db'']
      = ''/home/u/.config/app/app.db''"
    by (simp add: linux_env_def lexical_Join_def lexical_Clean_def clean_step_def)
  have mk: "os_MkdirAll linux_env ''/home/u/.config/app'' = None" by (simp add: linux_env_def)
  from linux_default_location [OF h1 h2 h3 h4, of "[]"] h1 h2 h3 h4 home name j1 j2 mk
  show ?thesis by simp
qed

section \<open>The directory on Windows\<close>

text \<open>
  Under the lexical path functions, joining a non-empty directory with the empty string
  gives the cleaned directory itself: no element is added.
\<close>

lemma split_sep_nonempty: "split_sep sep cs \<noteq> []"
  by (induction cs) (auto split: list.splits)

lemma split_sep_trailing: "split_sep sep (cs @ [sep]) = split_sep sep cs @ [[]]"
proof (induction cs)
  case Nil
  show ?case by simp
next
  case (Cons c cs)
  then show ?case
    using split_sep_nonempty [of sep cs]
    by (cases "split_sep sep cs") auto
qed

lemma lexical_Clean_trailing:
  assumes "a \<noteq> []"
  shows "lexical_Clean sep (a @ [sep]) = lexical_Clean sep a"
proof -
  from assms
  have rooted: "(case a @ [sep] of [] \<Rightarrow> False | c # _ \<Rightarrow> c = sep) =
      (case a of [] \<Rightarrow> False | c # _ \<Rightarrow> c = sep)"
    by (cases a) simp_all
  show ?thesis
    unfolding lexical_Clean_def rooted split_sep_trailing by simp
qed

lemma lexical_Join_empty_second:
  "lexical_Join sep [a, []] = (if a = [] then [] else lexical_Clean sep a)"
  using lexical_Clean_trailing [of a sep]
  by (simp add: lexical_Join_def)

text \<open>
  Claim C7. On Windows the resolved directory, the one \<^verbatim>\<open>createFileDB\<close> creates
  first, is the override \<^verbatim>\<open>WindowsDir\<close> itself when it is not empty, and otherwise
  the join of the value of \<^verbatim>\<open>APPDATA\<close> with the empty override; the name of the
  database takes no part in it.
\<close>

theorem windows_directory:
  assumes "GOOS e = ''windows''"
  shows "dbDir e (config s) =
       Inr (if WindowsDir (config s) \<noteq> [] then WindowsDir (config s)
            else filepath_Join e [os_Getenv e ''APPDATA'', []])
     \<and> take 1 (drop (length w) (snd (snd (createFileDB e s w)))) =
       [EvMkdirAll (if WindowsDir (config s) \<noteq> [] then WindowsDir (config s)
                    else filepath_Join e [os_Getenv e ''APPDATA'', []]) 493]"
proof -
  from assms have dir: "dbDir e (config s) =
       Inr (if WindowsDir (config s) \<noteq> [] then WindowsDir (config s)
            else filepath_Join e [os_Getenv e ''APPDATA'', []])"
    by (simp add: dbDir_def)
  from createFileDB_starts_with_mkdir [OF dir, of w] dir show ?thesis by simp
qed

text \<open>
  Two instances on a Windows host: with no override the directory is the value of
  \<^verbatim>\<open>APPDATA\<close> itself, and with the override \<^verbatim>\<open>D:/data\<close> it is that override.
\<close>

theorem windows_directory_witness:
  "GOOS windows_env = ''windows''
   \<and> WindowsDir (config (NewPlugin app_config)) = []
   \<and> dbDir windows_env (config (NewPlugin app_config)) = Inr (os_Getenv windows_env ''APPDATA'')
   \<and> WindowsDir (config (NewPlugin (app_config\<lparr>WindowsDir := ''D:/data''\<rparr>))) = ''D:/data''
   \<and> dbDir windows_env (config (NewPlugin (app_config\<lparr>WindowsDir := ''D:/data''\<rparr>))) =
       Inr ''D:/data''"
proof -
  have h: "GOOS windows_env = ''windows''" by (simp add: windows_env_def)
  have w1: "WindowsDir (config (NewPlugin app_config)) = []"
    by (simp add: NewPlugin_def app_config_def)
  have w2: "WindowsDir (config (NewPlugin (app_config\<lparr>WindowsDir := ''D:/data''\<rparr>))) = ''D:/data''"
    by (simp add: NewPlugin_def)
  have j: "filepath_Join windows_env [os_Getenv windows_env ''APPDATA'', []] =
      os_Getenv windows_env ''APPDATA''"
    by (simp add: windows_env_def lexical_Join_def lexical_Clean_def clean_step_def backslash_def)
  from windows_directory [OF h, of "NewPlugin app_config" "[]"]
    windows_directory [OF h, of "NewPlugin (app_config\<lparr>WindowsDir := ''D:/data''\<rparr>)" "[]"]
    h w1 w2 j
  show ?thesis by simp
qed

section \<open>The pool bounds\<close>

text \<open>
  Claim C8. In a file-backed \<^verbatim>\<open>Init\<close>, once the connection is open, the idle bound
  is set to 2 when \<^verbatim>\<open>MaxIdleConnections\<close> is 0 and to the configured value
  otherwise, the open bound is set to 1 when \<^verbatim>\<open>MaxOpenConnections\<close> is 0 and to the
  configured value otherwise, and the ping comes right after the two: these are the
  third, fourth and fifth event of the run. No ping happens in any other position, so
  every ping of a run has both bounds applied to its connection before it.
\<close>

theorem file_init_pool_bounds:
  assumes "\<not> InMemory (config p)" and "DbName (config p) \<noteq> []"
  shows "(\<forall>dir db.
        dbDir e (config p) = Inr dir \<and> os_MkdirAll e dir = None \<and>
        sql_Open e ''sqlite3'' (filepath_Join e [dir, fileName (config p)]) = Inr db \<longrightarrow>
        take 5 (drop (length w) (snd (snd (Init e p w)))) =
          [EvMkdirAll dir 493,
           EvOpen ''sqlite3'' (filepath_Join e [dir, fileName (config p)]),
           EvSetMaxIdleConns db
             (if MaxIdleConnections (config p) = 0 then 2 else MaxIdleConnections (config p)),
           EvSetMaxOpenConns db
             (if MaxOpenConnections (config p) = 0 then 1 else MaxOpenConnections (config p)),
           EvPing db])
     \<and> (\<forall>db. EvPing db \<in> set (drop (length w) (snd (snd (Init e p w)))) \<longrightarrow>
          (\<exists>dir dsn. take 5 (drop (length w) (snd (snd (Init e p w)))) =
             [EvMkdirAll dir 493, EvOpen ''sqlite3'' dsn,
              EvSetMaxIdleConns db
                (if MaxIdleConnections (config p) = 0 then 2
                 else MaxIdleConnections (config p)),
              EvSetMaxOpenConns db
                (if MaxOpenConnections (config p) = 0 then 1
                 else MaxOpenConnections (config p)),
              EvPing db]))"
proof -
  let ?p = "p\<lparr>app := application_Get e\<rparr>"
  from assms have init: "Init e p w = createFileDB e ?p w"
    by (simp add: Init_file_backed)
  have cfg: "config ?p = config p" by simp
  show ?thesis
  proof (intro conjI allI impI)
    fix dir db
    assume "dbDir e (config p) = Inr dir \<and> os_MkdirAll e dir = None \<and>
        sql_Open e ''sqlite3'' (filepath_Join e [dir, fileName (config p)]) = Inr db"
    then have "dbDir e (config ?p) = Inr dir" "os_MkdirAll e dir = None"
      "sql_Open e ''sqlite3'' (filepath_Join e [dir, fileName (config ?p)]) = Inr db"
      by simp_all
    from createFileDB_then_bounds_and_ping [OF this, of w]
    show "take 5 (drop (length w) (snd (snd (Init e p w)))) =
          [EvMkdirAll dir 493,
           EvOpen ''sqlite3'' (filepath_Join e [dir, fileName (config p)]),
           EvSetMaxIdleConns db
             (if MaxIdleConnections (config p) = 0 then 2 else MaxIdleConnections (config p)),
           EvSetMaxOpenConns db
             (if MaxOpenConnections (config p) = 0 then 1 else MaxOpenConnections (config p)),
           EvPing db]"
      unfolding init cfg .
  next
    fix db
    assume "EvPing db \<in> set (drop (length w) (snd (snd (Init e p w))))"
    then have "EvPing db \<in> set (drop (length w) (snd (snd (createFileDB e ?p w))))"
      unfolding init .
    from createFileDB_ping_is_fifth [OF this]
    show "\<exists>dir dsn. take 5 (drop (length w) (snd (snd (Init e p w)))) =
             [EvMkdirAll dir 493, EvOpen ''sqlite3'' dsn,
              EvSetMaxIdleConns db
                (if MaxIdleConnections (config p) = 0 then 2
                 else MaxIdleConnections (config p)),
              EvSetMaxOpenConns db
                (if MaxOpenConnections (config p) = 0 then 1
                 else MaxOpenConnections (config p)),
              EvPing db]"
      unfolding init cfg .
  qed
qed

text \<open>
  An instance: \<^verbatim>\<open>MaxIdleConnections\<close> unset and \<^verbatim>\<open>MaxOpenConnections\<close> set to 4
  give the bounds 2 and 4, applied before the ping.
\<close>

theorem file_init_pool_bounds_witness:
  "\<not> InMemory (config (NewPlugin shared_config))
   \<and> DbName (config (NewPlugin shared_config)) \<noteq> []
   \<and> MaxIdleConnections (config (NewPlugin shared_config)) = 0
   \<and> MaxOpenConnections (config (NewPlugin shared_config)) = 4
   \<and> take 5 (snd (snd (Init linux_env (NewPlugin shared_config) []))) =
       [EvMkdirAll ''/home/u/.config/app'' 493,
        EvOpen ''sqlite3'' ''/home/u/.config/app/app.db?cache=shared'',
        EvSetMaxIdleConns 1 2, EvSetMaxOpenConns 1 4, EvPing 1]"
proof -
  have h1: "\<not> InMemory (config (NewPlugin shared_config))"
    by (simp add: NewPlugin_def shared_config_def app_config_def)
  have h2: "DbName (config (NewPlugin shared_config)) \<noteq> []"
    by (simp add: NewPlugin_def shared_config_def app_config_def)
  have idle: "MaxIdleConnections (config (NewPlugin shared_config)) = 0"
    and opn: "MaxOpenConnections (config (NewPlugin shared_config)) = 4"
    by (simp_all add: NewPlugin_def shared_config_def app_config_def)
  have fname: "fileName (config (NewPlugin shared_config)) = ''app.db?cache=shared''"
    by (simp add: fileName_def NewPlugin_def shared_config_def app_config_def)
  have dir: "dbDir linux_env (config (NewPlugin shared_config)) = Inr ''/home/u/.config/app''"
    by (simp add: dbDir_def NewPlugin_def shared_config_def app_config_def linux_env_def
        lexical_Join_def lexical_Clean_def clean_step_def)
  have mk: "os_MkdirAll linux_env ''/home/u/.config/app'' = None"
    by (simp add: linux_env_def)
  have dsn: "filepath_Join linux_env [''/home/u/.config/app'', ''app.db?cache=shared''] =
      ''/home/u/.config/app/app.db?cache=shared''"
    by (simp add: linux_env_def lexical_Join_def lexical_Clean_def clean_step_def)
  have op: "sql_Open linux_env ''sqlite3'' ''/home/u/.config/app/app.db?cache=shared'' = Inr 1"
    by (simp add: linux_env_def)
  from file_init_pool_bounds [OF h1 h2, of linux_env "[]"]
  have "dbDir linux_env (config (NewPlugin shared_config)) = Inr ''/home/u/.config/app'' \<and>
        os_MkdirAll linux_env ''/home/u/.config/app'' = None \<and>
        sql_Open linux_env ''sqlite3''
          (filepath_Join linux_env
             [''/home/u/.config/app'', fileName (config (NewPlugin shared_config))]) = Inr 1 \<longrightarrow>
        take 5 (drop (length ([]::event list))
                  (snd (snd (Init linux_env (NewPlugin shared_config) [])))) =
          [EvMkdirAll ''/home/u/.config/app'' 493,
           EvOpen ''sqlite3''
             (filepath_Join linux_env
                [''/home/u/.config/app'', fileName (config (NewPlugin shared_config))]),
           EvSetMaxIdleConns 1
             (if MaxIdleConnections (config (NewPlugin shared_config)) = 0 then 2
              else MaxIdleConnections (config (NewPlugin shared_config))),
           EvSetMaxOpenConns 1
             (if MaxOpenConnections (config (NewPlugin shared_config)) = 0 then 1
              else MaxOpenConnections (config (NewPlugin shared_config))),
           EvPing 1]"
    by blast
  with h1 h2 idle opn fname dir mk dsn op show ?thesis by simp
qed

section \<open>The shared-cache modifier\<close>

text \<open>
  Claim C9. The file name is \<^verbatim>\<open>{name}.db\<close> followed by one \<^verbatim>\<open>?cache=shared\<close> when
  \<^verbatim>\<open>CacheShared\<close> is set, and \<^verbatim>\<open>{name}.db\<close> alone when it is not. A file-backed
  \<^verbatim>\<open>Init\<close> that has created its directory opens the connection with the directory
  joined with this file name, and opens no other connection.
\<close>

theorem shared_cache_modifier:
  assumes "\<not> InMemory (config p)" and "DbName (config p) \<noteq> []"
    and "dbDir e (config p) = Inr dir" and "os_MkdirAll e dir = None"
  shows "(CacheShared (config p) \<longrightarrow>
          fileName (config p) = DbName (config p) @ ''.db'' @ ''?cache=shared'')
     \<and> (\<not> CacheShared (config p) \<longrightarrow> fileName (config p) = DbName (config p) @ ''.db'')
     \<and> take 2 (drop (length w) (snd (snd (Init e p w)))) =
         [EvMkdirAll dir 493, EvOpen ''sqlite3'' (filepath_Join e [dir, fileName (config p)])]
     \<and> (\<forall>drv dsn. EvOpen drv dsn \<in> set (drop (length w) (snd (snd (Init e p w)))) \<longrightarrow>
          drv = ''sqlite3'' \<and> dsn = filepath_Join e [dir, fileName (config p)])"
proof -
  let ?p = "p\<lparr>app := application_Get e\<rparr>"
  from assms have init: "Init e p w = createFileDB e ?p w"
    by (simp add: Init_file_backed)
  have cfg: "config ?p = config p" by simp
  from assms have dir: "dbDir e (config ?p) = Inr dir" by simp
  have "fileName (config p) =
      DbName (config p) @ ''.db'' @ (if CacheShared (config p) then ''?cache=shared'' else [])"
    by (simp add: fileName_def)
  then have names: "CacheShared (config p) \<longrightarrow>
          fileName (config p) = DbName (config p) @ ''.db'' @ ''?cache=shared''"
    "\<not> CacheShared (config p) \<longrightarrow> fileName (config p) = DbName (config p) @ ''.db''"
    by simp_all
  from createFileDB_then_opens [OF dir assms(4), of w]
  have two: "take 2 (drop (length w) (snd (snd (Init e p w)))) =
         [EvMkdirAll dir 493, EvOpen ''sqlite3'' (filepath_Join e [dir, fileName (config p)])]"
    unfolding init cfg .
  have only: "\<forall>drv dsn. EvOpen drv dsn \<in> set (drop (length w) (snd (snd (Init e p w)))) \<longrightarrow>
          drv = ''sqlite3'' \<and> dsn = filepath_Join e [dir, fileName (config p)]"
  proof (intro allI impI)
    fix drv dsn
    assume "EvOpen drv dsn \<in> set (drop (length w) (snd (snd (Init e p w))))"
    then have "EvOpen drv dsn \<in> set (drop (length w) (snd (snd (createFileDB e ?p w))))"
      unfolding init .
    from createFileDB_single_open [OF this] dir
    show "drv = ''sqlite3'' \<and> dsn = filepath_Join e [dir, fileName (config p)]" by auto
  qed
  from names two only show ?thesis by blast
qed

text \<open>An instance: the name \<^verbatim>\<open>app\<close> with the shared cache on a Linux host.\<close>

theorem shared_cache_modifier_witness:
  "\<not> InMemory (config (NewPlugin shared_config))
   \<and> DbName (config (NewPlugin shared_config)) \<noteq> []
   \<and> dbDir linux_env (config (NewPlugin shared_config)) = Inr ''/home/u/.config/app''
   \<and> os_MkdirAll linux_env ''/home/u/.config/app'' = None
   \<and> CacheShared (config (NewPlugin shared_config))
   \<and> fileName (config (NewPlugin shared_config)) = ''app.db?cache=shared''
   \<and> take 2 (snd (snd (Init linux_env (NewPlugin shared_config) []))) =
       [EvMkdirAll ''/home/u/.config/app'' 493,
        EvOpen ''sqlite3'' ''/home/u/.config/app/app.db?cache=shared'']"
proof -
  have h1: "\<not> InMemory (config (NewPlugin shared_config))"
    by (simp add: NewPlugin_def shared_config_def app_config_def)
  have h2: "DbName (config (NewPlugin shared_config)) \<noteq> []"
    by (simp add: NewPlugin_def shared_config_def app_config_def)
  have h3: "dbDir linux_env (config (NewPlugin shared_config)) = Inr ''/home/u/.config/app''"
    by (simp add: dbDir_def NewPlugin_def shared_config_def app_config_def linux_env_def
        lexical_Join_def lexical_Clean_def clean_step_def)
  have h4: "os_MkdirAll linux_env ''/home/u/.config/app'' = None"
    by (simp add: linux_env_def)
  have shared: "CacheShared (config (NewPlugin shared_config))"
    and name: "DbName (config (NewPlugin shared_config)) = ''app''"
    by (simp_all add: NewPlugin_def shared_config_def app_config_def)
  have dsn: "filepath_Join linux_env [''/home/u/.config/app'', ''app.db?cache=shared''] =
      ''/home/u/.config/app/app.db?cache=shared''"
    by (simp add: linux_env_def lexical_Join_def lexical_Clean_def clean_step_def)
  from shared_cache_modifier [OF h1 h2 h3 h4, of "[]"] h1 h2 h3 h4 shared name dsn
  show ?thesis by simp
qed

section \<open>What Shutdown deletes\<close>

text \<open>
  A successful file-backed \<^verbatim>\<open>Init\<close> records the file name, not the joined path
  (line 176 stores \<^verbatim>\<open>fileName\<close>, one line after \<^verbatim>\<open>dbPath\<close> is computed), and
  \<^verbatim>\<open>Shutdown\<close> hands what was recorded, or its \<^verbatim>\<open>filepath.Dir\<close>, to
  \<^verbatim>\<open>os.RemoveAll\<close>.
\<close>

lemma Init_records_file_name:
  assumes "\<not> InMemory (config p)" and "fst (Init e p w) = Return None"
  shows "savedPath (config (fst (snd (Init e p w)))) = fileName (config p)"
proof (cases "DbName (config p) = []")
  case True
  with assms show ?thesis by (simp add: Init_def)
next
  case False
  with assms show ?thesis
    by (simp add: Init_def createFileDB_def Let_def split: sum.splits option.splits)
qed

lemma Shutdown_target:
  assumes "DeleteOnShutdown (config p)" and "\<not> InMemory (config p)"
  shows "snd (Shutdown e p w) =
     w @ [EvRemoveAll (if DeleteDir (config p) then filepath_Dir e (savedPath (config p))
                       else savedPath (config p))]"
  using assms by (simp add: Shutdown_def Let_def split: option.split)

text \<open>
  Claim C1, at a failing input. On the Linux host, with the name \<^verbatim>\<open>app\<close>,
  \<^verbatim>\<open>DeleteOnShutdown\<close> set and \<^verbatim>\<open>DeleteDir\<close> not set, \<^verbatim>\<open>Init\<close> succeeds and
  opens the database at \<^verbatim>\<open>/home/u/.config/app/app.db\<close>; \<^verbatim>\<open>Shutdown\<close> then
  removes the relative path \<^verbatim>\<open>app.db\<close>, which the operating system resolves against
  the working directory of the process. The database file is not the one removed.
\<close>

theorem Shutdown_removes_bare_file_name:
  "Init linux_env (NewPlugin delete_file_config) [] =
     (Return None,
      \<lparr>config = delete_file_config\<lparr>savedPath := ''app.db'', DB := Some 1\<rparr>, app = Some 7\<rparr>,
      [EvMkdirAll ''/home/u/.config/app'' 493,
       EvOpen ''sqlite3'' ''/home/u/.config/app/app.db'',
       EvSetMaxIdleConns 1 2, EvSetMaxOpenConns 1 1, EvPing 1,
       EvLoggerInfo 7 ''Sqlite Initialized'' ''/home/u/.config/app/app.db'' 2 1])
   \<and> Shutdown linux_env (fst (snd (Init linux_env (NewPlugin delete_file_config) []))) [] =
       (None, [EvRemoveAll ''app.db''])"
  by (simp add: Init_def createFileDB_def dbDir_def fileName_def Shutdown_def NewPlugin_def
      delete_file_config_def app_config_def linux_env_def Let_def
      lexical_Join_def lexical_Clean_def clean_step_def)

text \<open>
  Claim C2, at a failing input. The same host and name with \<^verbatim>\<open>DeleteDir\<close> set:
  \<^verbatim>\<open>Shutdown\<close> asks for the removal of \<^verbatim>\<open>.\<close>, the directory part of the bare file
  name, which \<^verbatim>\<open>os.RemoveAll\<close> refuses; \<^verbatim>\<open>Shutdown\<close> returns the wrapped error
  and the directory \<^verbatim>\<open>/home/u/.config/app\<close> of the database stays.
\<close>

theorem Shutdown_delete_dir_targets_dot:
  "Init linux_env (NewPlugin delete_dir_config) [] =
     (Return None,
      \<lparr>config = delete_dir_config\<lparr>savedPath := ''app.db'', DB := Some 1\<rparr>, app = Some 7\<rparr>,
      [EvMkdirAll ''/home/u/.config/app'' 493,
       EvOpen ''sqlite3'' ''/home/u/.config/app/app.db'',
       EvSetMaxIdleConns 1 2, EvSetMaxOpenConns 1 1, EvPing 1,
       EvLoggerInfo 7 ''Sqlite Initialized'' ''/home/u/.config/app/app.db'' 2 1])
   \<and> Shutdown linux_env (fst (snd (Init linux_env (NewPlugin delete_dir_config) []))) [] =
       (Some (fmt_Errorf ''failed to delete database''
                (errors_New ''RemoveAll .: invalid argument'')),
        [EvRemoveAll ''.''])"
  by (simp add: Init_def createFileDB_def dbDir_def fileName_def Shutdown_def NewPlugin_def
      delete_dir_config_def app_config_def linux_env_def Let_def
      lexical_Join_def lexical_Clean_def lexical_Dir_def clean_step_def)

end
